theory Spec2Isabelle
  imports Complex_Main "HOL-Library.Multiset"
begin

section \<open>Performance Monitor API: the recording and retention engine of app.py\<close>

text \<open>
  A shallow embedding of \<^verbatim>\<open>src/app.py\<close>: the data classes, the SQLite tables behind
  \<^verbatim>\<open>DatabaseManager\<close>, and \<^verbatim>\<open>PerformanceMonitor\<close> with its sampler, its diagnostic
  lookups, \<^verbatim>\<open>log_error\<close> and the \<^verbatim>\<open>monitor_function\<close> context manager.

  Conventions.
  \<^item> Python floats are modelled as \<open>real\<close>, Python ints as \<open>int\<close>, strings as ASCII
    \<open>string\<close>.
  \<^item> Everything the code reads from its environment (the psutil calls, \<^verbatim>\<open>time.time()\<close>,
    \<^verbatim>\<open>datetime.now()\<close>, SQLite's \<^verbatim>\<open>CURRENT_TIMESTAMP\<close>, the traceback text) is an
    explicit argument of the function that reads it.
  \<^item> An exception is a value: a raised \<^verbatim>\<open>Exception\<close> is \<open>Inl e\<close>. Exits that are
    not an \<^verbatim>\<open>Exception\<close> (\<^verbatim>\<open>KeyboardInterrupt\<close>, \<^verbatim>\<open>SystemExit\<close>) are not modelled.
  \<^item> The SQLite engine itself is assumed not to fail (no locked or full database).
\<close>

subsection \<open>Python exceptions and strings\<close>

text \<open>An instance of \<^verbatim>\<open>Exception\<close>: \<^verbatim>\<open>type(e).__name__\<close> and \<^verbatim>\<open>str(e)\<close>.\<close>

datatype py_exception = PyException (exc_name: string) (exc_str: string)

text \<open>\<^verbatim>\<open>d[k]\<close> on a missing key; \<^verbatim>\<open>str(KeyError('k'))\<close> is the quoted key.\<close>

definition KeyError :: "string \<Rightarrow> py_exception" where
  "KeyError k = PyException ''KeyError'' ([CHR 0x27] @ k @ [CHR 0x27])"

text \<open>\<^verbatim>\<open>str.upper()\<close> on ASCII text.\<close>

definition upper_char :: "char \<Rightarrow> char" where
  "upper_char c =
     (let n = (of_char c :: nat) in if 97 \<le> n \<and> n \<le> 122 then char_of (n - 32) else c)"

definition upper :: "string \<Rightarrow> string" where
  "upper s = map upper_char s"

text \<open>Truthiness of an \<^verbatim>\<open>Optional[str]\<close>: \<^verbatim>\<open>None\<close> and the empty string are falsy.\<close>

definition truthy :: "string option \<Rightarrow> bool" where
  "truthy v = (case v of None \<Rightarrow> False | Some s \<Rightarrow> s \<noteq> [])"

subsection \<open>The data classes\<close>

text \<open>
  \<^verbatim>\<open>PerformanceMetrics\<close> and \<^verbatim>\<open>ErrorLog\<close>. The \<^verbatim>\<open>id\<close> field of both is always
  \<^verbatim>\<open>None\<close> in the code and is not inserted; the identity is the row's. Fields of
  \<^verbatim>\<open>ErrorLog\<close> whose names \<^verbatim>\<open>PerformanceMetrics\<close> already uses carry the prefix
  \<open>err_\<close>.
\<close>

record PerformanceMetrics =
  timestamp :: string
  cpu_usage :: real
  memory_usage :: real
  disk_usage :: real
  network_sent :: int
  network_recv :: int
  execution_time :: real
  function_name :: string
  status :: string
  api_key :: "string option"

record ErrorLog =
  err_timestamp :: string
  level :: string
  error_type :: string
  message :: string
  traceback_info :: string
  err_function_name :: string
  cpu_impact :: real
  memory_impact :: real
  severity :: real
  explanation :: string
  suggested_fix :: string
  err_api_key :: "string option"

subsection \<open>DatabaseManager\<close>

text \<open>
  A stored row: the \<^verbatim>\<open>INTEGER PRIMARY KEY AUTOINCREMENT\<close> id, the
  \<^verbatim>\<open>created_at DATETIME DEFAULT CURRENT_TIMESTAMP\<close> column (the database clock at the
  insert, in whole seconds) and the inserted columns. A table is the list of its rows in
  insertion order, with the last id handed out (\<^verbatim>\<open>AUTOINCREMENT\<close> never reuses one).
  The \<^verbatim>\<open>api_keys\<close> table plays no part in what follows and is left out.
\<close>

record 'a row =
  row_id :: nat
  created_at :: nat
  cols :: 'a

record database =
  metrics :: "PerformanceMetrics row list"
  metrics_seq :: nat
  errors :: "ErrorLog row list"
  errors_seq :: nat

definition initialize_database :: database where
  "initialize_database = \<lparr>metrics = [], metrics_seq = 0, errors = [], errors_seq = 0\<rparr>"

text \<open>
  \<^verbatim>\<open>ORDER BY created_at DESC\<close>: the rows by decreasing \<open>created_at\<close>. SQL leaves the
  order of rows with equal keys open; the model keeps them in table order (a stable
  sort).
\<close>

definition order_by_created_at_desc :: "'a row list \<Rightarrow> 'a row list" where
  "order_by_created_at_desc rows = sort_key (\<lambda>r. - int (created_at r)) rows"

text \<open>\<^verbatim>\<open>LIMIT ?\<close>: in SQLite a negative limit puts no bound on the number of rows.\<close>

definition sql_limit :: "int \<Rightarrow> 'b list \<Rightarrow> 'b list" where
  "sql_limit n xs = (if n < 0 then xs else take (nat n) xs)"

text \<open>\<^verbatim>\<open>save_metric\<close> and \<^verbatim>\<open>save_error\<close>; \<open>now\<close> is \<^verbatim>\<open>CURRENT_TIMESTAMP\<close>.\<close>

definition save_metric :: "PerformanceMetrics \<Rightarrow> nat \<Rightarrow> database \<Rightarrow> database" where
  "save_metric metric now db =
     db\<lparr>metrics := metrics db @ [\<lparr>row_id = Suc (metrics_seq db), created_at = now, cols = metric\<rparr>],
        metrics_seq := Suc (metrics_seq db)\<rparr>"

definition save_error :: "ErrorLog \<Rightarrow> nat \<Rightarrow> database \<Rightarrow> database" where
  "save_error error now db =
     db\<lparr>errors := errors db @ [\<lparr>row_id = Suc (errors_seq db), created_at = now, cols = error\<rparr>],
        errors_seq := Suc (errors_seq db)\<rparr>"

text \<open>
  Binding a Python \<^verbatim>\<open>int\<close> to a \<^verbatim>\<open>?\<close> of a statement: \<^verbatim>\<open>cursor.execute\<close> raises
  \<^verbatim>\<open>OverflowError\<close> for an \<^verbatim>\<open>int\<close> outside SQLite's 64-bit \<^verbatim>\<open>INTEGER\<close>, before any row
  is read.
\<close>

definition OverflowError :: py_exception where
  "OverflowError =
     PyException ''OverflowError'' ''Python int too large to convert to SQLite INTEGER''"

definition bind_integer :: "int \<Rightarrow> py_exception + int" where
  "bind_integer n = (if - (2 ^ 63) \<le> n \<and> n < 2 ^ 63 then Inr n else Inl OverflowError)"

text \<open>\<^verbatim>\<open>get_metrics(limit, api_key)\<close>.\<close>

definition get_metrics ::
  "int \<Rightarrow> string option \<Rightarrow> database \<Rightarrow> py_exception + PerformanceMetrics row list" where
  "get_metrics limit key db =
     (let rows = (if truthy key then filter (\<lambda>r. api_key (cols r) = key) (metrics db)
                  else metrics db)
      in case bind_integer limit of
           Inl e \<Rightarrow> Inl e
         | Inr n \<Rightarrow> Inr (sql_limit n (order_by_created_at_desc rows)))"

text \<open>
  \<^verbatim>\<open>get_errors(limit, level, api_key)\<close>: the query starts from \<^verbatim>\<open>WHERE 1=1\<close>, adds
  \<^verbatim>\<open>AND level = ?\<close> with \<^verbatim>\<open>level.upper()\<close> when \<^verbatim>\<open>level\<close> is truthy, adds
  \<^verbatim>\<open>AND api_key = ?\<close> when \<^verbatim>\<open>api_key\<close> is truthy, then orders and limits.
\<close>

definition where_level :: "string option \<Rightarrow> ErrorLog row list \<Rightarrow> ErrorLog row list" where
  "where_level lvl rows =
     (case lvl of
        None \<Rightarrow> rows
      | Some l \<Rightarrow> if l \<noteq> [] then filter (\<lambda>r. level (cols r) = upper l) rows else rows)"

definition where_api_key :: "string option \<Rightarrow> ErrorLog row list \<Rightarrow> ErrorLog row list" where
  "where_api_key key rows =
     (if truthy key then filter (\<lambda>r. err_api_key (cols r) = key) rows else rows)"

definition get_errors ::
  "int \<Rightarrow> string option \<Rightarrow> string option \<Rightarrow> database \<Rightarrow> py_exception + ErrorLog row list" where
  "get_errors limit lvl key db =
     (case bind_integer limit of
        Inl e \<Rightarrow> Inl e
      | Inr n \<Rightarrow>
          Inr (sql_limit n
                 (order_by_created_at_desc (where_api_key key (where_level lvl (errors db))))))"

text \<open>
  \<^verbatim>\<open>_cleanup_old_metrics\<close>:
  \<^verbatim>\<open>DELETE FROM metrics WHERE id NOT IN (SELECT id FROM metrics ORDER BY created_at DESC LIMIT ?)\<close>
  with \<^verbatim>\<open>Config.MAX_HISTORY_RECORDS\<close>, an \<^verbatim>\<open>int\<close> read from the environment, as the
  limit. The configured value is taken to lie in SQLite's 64-bit range.
\<close>

definition kept_ids :: "int \<Rightarrow> database \<Rightarrow> nat list" where
  "kept_ids max_history_records db =
     map row_id (sql_limit max_history_records (order_by_created_at_desc (metrics db)))"

definition cleanup_old_metrics :: "int \<Rightarrow> database \<Rightarrow> database" where
  "cleanup_old_metrics max_history_records db =
     db\<lparr>metrics := filter (\<lambda>r. row_id r \<in> set (kept_ids max_history_records db)) (metrics db)\<rparr>"

subsection \<open>PerformanceMonitor: state and sampler\<close>

text \<open>
  The monitor owns the database and the \<^verbatim>\<open>thresholds\<close> dict. Threshold values are
  numbers, as the four floats of \<^verbatim>\<open>__init__\<close> are.
\<close>

record monitor =
  db :: database
  thresholds :: "string \<rightharpoonup> real"

definition PerformanceMonitor_init :: monitor where
  "PerformanceMonitor_init =
     \<lparr>db = initialize_database,
      thresholds = [''cpu'' \<mapsto> 80, ''memory'' \<mapsto> 80, ''disk'' \<mapsto> 90, ''response_time'' \<mapsto> 5]\<rparr>"

text \<open>
  What the four psutil calls of \<^verbatim>\<open>_get_system_metrics\<close> give at one moment: each either
  raises or returns (\<^verbatim>\<open>cpu_percent\<close>, \<^verbatim>\<open>virtual_memory().percent\<close>,
  \<^verbatim>\<open>disk_usage('/').percent\<close>, and the two counters of \<^verbatim>\<open>net_io_counters()\<close>).
\<close>

record psutil =
  psutil_cpu_percent :: "py_exception + real"
  psutil_virtual_memory :: "py_exception + real"
  psutil_disk_usage :: "py_exception + real"
  psutil_net_io_counters :: "py_exception + int \<times> int"

text \<open>
  The dict \<^verbatim>\<open>_get_system_metrics\<close> returns has one of two shapes: all keys, or none
  (\<^verbatim>\<open>{}\<close>, here \<open>None\<close>). \<open>bytes_sent\<close> and \<open>bytes_recv\<close> are the keys of the
  nested \<^verbatim>\<open>network_io\<close> dict.
\<close>

record system_metrics =
  key_cpu_usage :: real
  key_memory_usage :: real
  key_disk_usage :: real
  key_bytes_sent :: int
  key_bytes_recv :: int

type_synonym metrics_dict = "system_metrics option"

text \<open>The \<^verbatim>\<open>try\<close> body: the four reads in order, the first exception ends it.\<close>

definition read_psutil :: "psutil \<Rightarrow> py_exception + system_metrics" where
  "read_psutil h =
     (case psutil_cpu_percent h of Inl e \<Rightarrow> Inl e | Inr cpu_percent \<Rightarrow>
     (case psutil_virtual_memory h of Inl e \<Rightarrow> Inl e | Inr memory \<Rightarrow>
     (case psutil_disk_usage h of Inl e \<Rightarrow> Inl e | Inr disk \<Rightarrow>
     (case psutil_net_io_counters h of Inl e \<Rightarrow> Inl e | Inr (sent, recv) \<Rightarrow>
        Inr \<lparr>key_cpu_usage = cpu_percent, key_memory_usage = memory, key_disk_usage = disk,
             key_bytes_sent = sent, key_bytes_recv = recv\<rparr>))))"

text \<open>\<^verbatim>\<open>_get_system_metrics\<close>: \<^verbatim>\<open>except Exception\<close> logs and returns \<^verbatim>\<open>{}\<close>.\<close>

definition get_system_metrics :: "psutil \<Rightarrow> py_exception + metrics_dict" where
  "get_system_metrics h =
     (case read_psutil h of Inl e \<Rightarrow> Inr None | Inr d \<Rightarrow> Inr (Some d))"

text \<open>Reads of the dict: \<^verbatim>\<open>d.get(k, 0)\<close> and \<^verbatim>\<open>d[k]\<close>.\<close>

definition get_cpu_usage :: "metrics_dict \<Rightarrow> real" where
  "get_cpu_usage d = (case d of None \<Rightarrow> 0 | Some m \<Rightarrow> key_cpu_usage m)"

definition get_memory_usage :: "metrics_dict \<Rightarrow> real" where
  "get_memory_usage d = (case d of None \<Rightarrow> 0 | Some m \<Rightarrow> key_memory_usage m)"

definition get_disk_usage :: "metrics_dict \<Rightarrow> real" where
  "get_disk_usage d = (case d of None \<Rightarrow> 0 | Some m \<Rightarrow> key_disk_usage m)"

definition get_bytes_sent :: "metrics_dict \<Rightarrow> int" where
  "get_bytes_sent d = (case d of None \<Rightarrow> 0 | Some m \<Rightarrow> key_bytes_sent m)"

definition get_bytes_recv :: "metrics_dict \<Rightarrow> int" where
  "get_bytes_recv d = (case d of None \<Rightarrow> 0 | Some m \<Rightarrow> key_bytes_recv m)"

definition index_cpu_usage :: "metrics_dict \<Rightarrow> py_exception + real" where
  "index_cpu_usage d =
     (case d of None \<Rightarrow> Inl (KeyError ''cpu_usage'') | Some m \<Rightarrow> Inr (key_cpu_usage m))"

subsection \<open>PerformanceMonitor: diagnostics\<close>

definition explanations :: "(string \<times> string) list" where
  "explanations =
     [(''HIGH_CPU_USAGE'', ''CPU usage has exceeded the threshold, indicating intensive processing that may slow down the system.''),
      (''HIGH_MEMORY_USAGE'', ''Memory usage is critically high, which can lead to system instability and slower performance.''),
      (''DISK_SPACE_LOW'', ''Available disk space is running low, which can cause write operations to fail.''),
      (''SLOW_RESPONSE'', ''Function execution time exceeded acceptable limits, indicating performance bottleneck.''),
      (''NETWORK_ERROR'', ''Network connectivity issue detected, which may affect external API calls or data transfers.''),
      (''DATABASE_ERROR'', ''Database operation failed, potentially due to connection issues or query problems.''),
      (''AUTHENTICATION_ERROR'', ''Authentication failed, indicating potential security breach or expired credentials.''),
      (''RATE_LIMIT_EXCEEDED'', ''Too many requests received in a short time period.'')]"

definition generate_error_explanation :: "string \<Rightarrow> string \<Rightarrow> string" where
  "generate_error_explanation etype msg =
     (case map_of explanations etype of
        Some text \<Rightarrow> text
      | None \<Rightarrow> ''An error of type '' @ [CHR 0x27] @ etype @ [CHR 0x27] @ '' occurred: '' @ msg)"

text \<open>The dict \<^verbatim>\<open>fixes\<close> (\<open>fixes\<close> is a keyword of the prover).\<close>

definition fixes_table :: "(string \<times> string) list" where
  "fixes_table =
     [(''HIGH_CPU_USAGE'', ''Consider optimizing algorithms, reducing computational complexity, or scaling horizontally.''),
      (''HIGH_MEMORY_USAGE'', ''Review memory allocation, implement garbage collection, or increase available RAM.''),
      (''DISK_SPACE_LOW'', ''Clean up temporary files, archive old logs, or expand storage capacity.''),
      (''SLOW_RESPONSE'', ''Optimize database queries, implement caching, or consider asynchronous processing.''),
      (''NETWORK_ERROR'', ''Check network connectivity, implement retry logic, or use circuit breaker pattern.''),
      (''AUTHENTICATION_ERROR'', ''Verify API key is valid and has not expired.''),
      (''RATE_LIMIT_EXCEEDED'', ''Reduce request frequency or upgrade to a higher rate limit tier.'')]"

definition generate_suggested_fix :: "string \<Rightarrow> string \<Rightarrow> string" where
  "generate_suggested_fix etype msg =
     (case map_of fixes_table etype of
        Some text \<Rightarrow> text
      | None \<Rightarrow> ''Review the error details and implement appropriate error handling for ''
                @ [CHR 0x27] @ etype @ [CHR 0x27] @ ''.'')"

text \<open>\<^verbatim>\<open>_calculate_performance_impact\<close>: a fresh sample, then the three formulas.\<close>

record performance_impact =
  key_cpu_impact :: real
  key_memory_impact :: real
  key_overall_severity :: real

definition calculate_performance_impact :: "psutil \<Rightarrow> py_exception + performance_impact" where
  "calculate_performance_impact h =
     (case get_system_metrics h of
        Inl e \<Rightarrow> Inl e
      | Inr m \<Rightarrow>
          Inr \<lparr>key_cpu_impact = max 0 (get_cpu_usage m - 20),
               key_memory_impact = max 0 (get_memory_usage m - 30),
               key_overall_severity = min 10 ((get_cpu_usage m + get_memory_usage m) / 20)\<rparr>)"

subsection \<open>PerformanceMonitor: log\_error\<close>

text \<open>
  What one call of \<^verbatim>\<open>log_error\<close> reads: the host (for the impact), \<^verbatim>\<open>datetime.now()\<close>,
  the traceback text (\<open>None\<close> when \<^verbatim>\<open>sys.exc_info()[0]\<close> is unset) and the database clock.
\<close>

record log_reads =
  log_host :: psutil
  log_now :: string
  log_format_exc :: "string option"
  log_current_timestamp :: nat

text \<open>
  A stateful call gives the state it leaves and either an exception or a value.
\<close>

type_synonym 'a run = "(py_exception + 'a) \<times> monitor"

definition log_error ::
  "string \<Rightarrow> string \<Rightarrow> string \<Rightarrow> string \<Rightarrow> string option \<Rightarrow> log_reads \<Rightarrow> monitor \<Rightarrow> unit run" where
  "log_error etype msg fname lvl key rd mon =
     (case calculate_performance_impact (log_host rd) of
        Inl e \<Rightarrow> (Inl e, mon)
      | Inr performance_impact \<Rightarrow>
          (Inr (),
           mon\<lparr>db := save_error
              \<lparr>err_timestamp = log_now rd,
               level = lvl,
               error_type = etype,
               message = msg,
               traceback_info =
                 (case log_format_exc rd of Some tb \<Rightarrow> tb | None \<Rightarrow> ''No traceback available''),
               err_function_name = fname,
               cpu_impact = key_cpu_impact performance_impact,
               memory_impact = key_memory_impact performance_impact,
               severity = key_overall_severity performance_impact,
               explanation = generate_error_explanation etype msg,
               suggested_fix = generate_suggested_fix etype msg,
               err_api_key = key\<rparr>
              (log_current_timestamp rd) (db mon)\<rparr>))"

subsection \<open>PerformanceMonitor: monitor\_function\<close>

text \<open>
  What one \<^verbatim>\<open>with monitor.monitor_function(...)\<close> reads, in program order: the clock
  and the host before the body; the reads of the \<^verbatim>\<open>log_error\<close> of the \<^verbatim>\<open>except\<close>
  block; the clock and the host in the \<^verbatim>\<open>finally\<close> block; the reads of its two
  \<^verbatim>\<open>log_error\<close> calls; \<^verbatim>\<open>datetime.now()\<close> and the database clock for the metric.
\<close>

record monitor_reads =
  start_time :: real
  start_host :: psutil
  except_reads :: log_reads
  end_time :: real
  end_host :: psutil
  cpu_reads :: log_reads
  slow_reads :: log_reads
  metric_now :: string
  metric_current_timestamp :: nat

text \<open>\<^verbatim>\<open>self.thresholds[k]\<close>.\<close>

definition index_threshold :: "monitor \<Rightarrow> string \<Rightarrow> py_exception + real" where
  "index_threshold mon k = (case thresholds mon k of None \<Rightarrow> Inl (KeyError k) | Some v \<Rightarrow> Inr v)"

text \<open>
  The first threshold check of the \<^verbatim>\<open>finally\<close> block. The condition reads
  \<^verbatim>\<open>end_metrics.get('cpu_usage', 0)\<close>, the message \<^verbatim>\<open>end_metrics['cpu_usage']\<close>.
  \<open>fmt\<close> is the \<^verbatim>\<open>:.2f\<close> formatting of a float.
\<close>

definition check_cpu ::
  "(real \<Rightarrow> string) \<Rightarrow> string \<Rightarrow> string option \<Rightarrow> log_reads \<Rightarrow> metrics_dict \<Rightarrow> monitor \<Rightarrow> unit run" where
  "check_cpu fmt fname key rd end_metrics mon =
     (case index_threshold mon ''cpu'' of
        Inl e \<Rightarrow> (Inl e, mon)
      | Inr t \<Rightarrow>
          if get_cpu_usage end_metrics > t then
            (case index_cpu_usage end_metrics of
               Inl e \<Rightarrow> (Inl e, mon)
             | Inr c \<Rightarrow>
                 log_error ''HIGH_CPU_USAGE'' (''CPU usage: '' @ fmt c @ ''% exceeds threshold'')
                   fname ''WARNING'' key rd mon)
          else (Inr (), mon))"

definition check_response_time ::
  "(real \<Rightarrow> string) \<Rightarrow> string \<Rightarrow> string option \<Rightarrow> log_reads \<Rightarrow> real \<Rightarrow> monitor \<Rightarrow> unit run" where
  "check_response_time fmt fname key rd exec_time mon =
     (case index_threshold mon ''response_time'' of
        Inl e \<Rightarrow> (Inl e, mon)
      | Inr t \<Rightarrow>
          if exec_time > t then
            log_error ''SLOW_RESPONSE'' (''Execution time: '' @ fmt exec_time @ ''s exceeds threshold'')
              fname ''WARNING'' key rd mon
          else (Inr (), mon))"

text \<open>The \<^verbatim>\<open>finally\<close> block.\<close>

definition finally_block ::
  "(real \<Rightarrow> string) \<Rightarrow> string \<Rightarrow> string option \<Rightarrow> monitor_reads \<Rightarrow> monitor \<Rightarrow> unit run" where
  "finally_block fmt fname key rd mon =
     (let exec_time = end_time rd - start_time rd in
      case get_system_metrics (end_host rd) of
        Inl e \<Rightarrow> (Inl e, mon)
      | Inr end_metrics \<Rightarrow>
          (case check_cpu fmt fname key (cpu_reads rd) end_metrics mon of
             (Inl e, mon1) \<Rightarrow> (Inl e, mon1)
           | (Inr u, mon1) \<Rightarrow>
               (case check_response_time fmt fname key (slow_reads rd) exec_time mon1 of
                  (Inl e, mon2) \<Rightarrow> (Inl e, mon2)
                | (Inr u, mon2) \<Rightarrow>
                    (Inr (),
                     mon2\<lparr>db := save_metric
                        \<lparr>timestamp = metric_now rd,
                         cpu_usage = get_cpu_usage end_metrics,
                         memory_usage = get_memory_usage end_metrics,
                         disk_usage = get_disk_usage end_metrics,
                         network_sent = get_bytes_sent end_metrics,
                         network_recv = get_bytes_recv end_metrics,
                         execution_time = exec_time,
                         function_name = fname,
                         status = ''completed'',
                         api_key = key\<rparr>
                        (metric_current_timestamp rd) (db mon2)\<rparr>))))"

text \<open>
  The \<^verbatim>\<open>except Exception as e\<close> block: log, then \<^verbatim>\<open>raise\<close>. It gives the exception
  that propagates.
\<close>

definition except_block ::
  "string \<Rightarrow> string option \<Rightarrow> log_reads \<Rightarrow> py_exception \<Rightarrow> monitor \<Rightarrow> py_exception \<times> monitor" where
  "except_block fname key rd e mon =
     (case log_error (upper (exc_name e)) (exc_str e) fname ''ERROR'' key rd mon of
        (Inl e1, mon1) \<Rightarrow> (e1, mon1)
      | (Inr u, mon1) \<Rightarrow> (e, mon1))"

text \<open>
  The body of the \<^verbatim>\<open>with\<close> statement is any code that runs on the monitor and either
  returns a value or raises an \<^verbatim>\<open>Exception\<close>. \<^verbatim>\<open>monitor_function\<close> gives what the
  \<^verbatim>\<open>with\<close> statement as a whole gives its caller: an exception raised in the
  \<^verbatim>\<open>finally\<close> block replaces the pending result.
\<close>

type_synonym 'a body = "monitor \<Rightarrow> 'a run"

definition monitor_function ::
  "(real \<Rightarrow> string) \<Rightarrow> string \<Rightarrow> string option \<Rightarrow> monitor_reads \<Rightarrow> 'a body \<Rightarrow> monitor \<Rightarrow> 'a run" where
  "monitor_function fmt fname key rd body mon =
     (case get_system_metrics (start_host rd) of
        Inl e \<Rightarrow> (Inl e, mon)
      | Inr start_metrics \<Rightarrow>
          (let (r, mon1) = body mon;
               (pending, mon2) =
                  (case r of
                     Inr v \<Rightarrow> (Inr v, mon1)
                   | Inl e \<Rightarrow> (case except_block fname key (except_reads rd) e mon1 of
                               (e1, m) \<Rightarrow> (Inl e1, m)));
               (f, mon3) = finally_block fmt fname key rd mon2
           in (case f of Inl e \<Rightarrow> (Inl e, mon3) | Inr u \<Rightarrow> (pending, mon3))))"

subsection \<open>The thresholds route\<close>

text \<open>
  \<^verbatim>\<open>POST /api/thresholds\<close> with a JSON object: \<^verbatim>\<open>monitor.thresholds.update(new_thresholds)\<close>
  inside \<^verbatim>\<open>monitor_function('manage_thresholds', g.api_key)\<close>; the response carries the
  updated dict.
\<close>

definition set_thresholds :: "(string \<rightharpoonup> real) \<Rightarrow> (string \<rightharpoonup> real) body" where
  "set_thresholds new_thresholds mon =
     (let mon1 = mon\<lparr>thresholds := thresholds mon ++ new_thresholds\<rparr>
      in (Inr (thresholds mon1), mon1))"

definition manage_thresholds_POST ::
  "(real \<Rightarrow> string) \<Rightarrow> string option \<Rightarrow> monitor_reads \<Rightarrow> (string \<rightharpoonup> real) \<Rightarrow> (string \<rightharpoonup> real) body" where
  "manage_thresholds_POST fmt key rd new_thresholds =
     monitor_function fmt ''manage_thresholds'' key rd (set_thresholds new_thresholds)"

subsection \<open>Reachable states of the store\<close>

text \<open>
  Every instrumented operation writes to the store through \<^verbatim>\<open>save_error\<close> and
  \<^verbatim>\<open>save_metric\<close>; every cycle of \<^verbatim>\<open>background_monitoring\<close> writes through
  \<^verbatim>\<open>save_error\<close> and ends with \<^verbatim>\<open>_cleanup_old_metrics\<close>. The states of the store
  reachable from a fresh database are therefore those built by any interleaving of the
  three. The last argument counts the metrics saved since the last cleanup.
\<close>

inductive reachable :: "int \<Rightarrow> database \<Rightarrow> nat \<Rightarrow> bool" for max_history_records :: int where
  fresh: "reachable max_history_records initialize_database 0"
| metric_saved:
    "reachable max_history_records d k \<Longrightarrow> reachable max_history_records (save_metric m t d) (Suc k)"
| error_saved:
    "reachable max_history_records d k \<Longrightarrow> reachable max_history_records (save_error e t d) k"
| cleaned:
    "reachable max_history_records d k \<Longrightarrow>
     reachable max_history_records (cleanup_old_metrics max_history_records d) 0"

subsection \<open>Example inputs\<close>

text \<open>
  Concrete inputs for the evaluations below: a host whose \<^verbatim>\<open>cpu_percent\<close> read raises, a
  host with a given CPU load, the reads of one \<^verbatim>\<open>log_error\<close> call, the reads of one
  instrumented call that starts at time 0 and ends at time \<open>t\<close> with its end sample
  taken on the host \<open>h\<close>, and two records.
\<close>

definition host_down :: psutil where
  "host_down =
     \<lparr>psutil_cpu_percent = Inl (PyException ''PermissionError'' ''access denied''),
      psutil_virtual_memory = Inr 40,
      psutil_disk_usage = Inr 50,
      psutil_net_io_counters = Inr (1000, 2000)\<rparr>"

definition host_up :: "real \<Rightarrow> psutil" where
  "host_up cpu =
     \<lparr>psutil_cpu_percent = Inr cpu,
      psutil_virtual_memory = Inr 40,
      psutil_disk_usage = Inr 50,
      psutil_net_io_counters = Inr (1000, 2000)\<rparr>"

definition example_log_reads :: log_reads where
  "example_log_reads =
     \<lparr>log_host = host_up 10, log_now = ''2025-01-01T00:00:01'', log_format_exc = None,
      log_current_timestamp = 1\<rparr>"

definition example_reads :: "psutil \<Rightarrow> real \<Rightarrow> monitor_reads" where
  "example_reads h t =
     \<lparr>start_time = 0, start_host = host_up 10, except_reads = example_log_reads,
      end_time = t, end_host = h, cpu_reads = example_log_reads, slow_reads = example_log_reads,
      metric_now = ''2025-01-01T00:00:01'', metric_current_timestamp = 1\<rparr>"

definition example_metric :: PerformanceMetrics where
  "example_metric =
     \<lparr>timestamp = ''2025-01-01T00:00:00'', cpu_usage = 10, memory_usage = 40, disk_usage = 50,
      network_sent = 1000, network_recv = 2000, execution_time = 1, function_name = ''get_metrics'',
      status = ''completed'', api_key = None\<rparr>"

definition example_error :: "string \<Rightarrow> ErrorLog" where
  "example_error lvl =
     \<lparr>err_timestamp = ''2025-01-01T00:00:00'', level = lvl, error_type = ''TEST_ERROR'',
      message = ''This is a test error'', traceback_info = ''No traceback available'',
      err_function_name = ''test_error'', cpu_impact = 0, memory_impact = 10, severity = 5/2,
      explanation = generate_error_explanation ''TEST_ERROR'' ''This is a test error'',
      suggested_fix = generate_suggested_fix ''TEST_ERROR'' ''This is a test error'',
      err_api_key = Some ''pm_alice''\<rparr>"

text \<open>
  A store with three WARNING and two ERROR rows inserted at distinct times, and a store
  with 150 metric rows inserted at the times 1 to 150.
\<close>

definition five_errors :: database where
  "five_errors =
     save_error (example_error ''WARNING'') 5 (save_error (example_error ''ERROR'') 4
    (save_error (example_error ''WARNING'') 3 (save_error (example_error ''ERROR'') 2
    (save_error (example_error ''WARNING'') 1 initialize_database))))"


text \<open>
  A monitor whose \<open>cpu\<close> threshold has been set to \<open>-1\<close> by a \<^verbatim>\<open>POST /api/thresholds\<close>,
  a body that returns and a body that raises.
\<close>

definition negative_cpu_threshold :: monitor where
  "negative_cpu_threshold = snd (set_thresholds [''cpu'' \<mapsto> - 1] PerformanceMonitor_init)"

definition body_returns :: "unit body" where
  "body_returns mon = (Inr (), mon)"

definition body_raises :: "unit body" where
  "body_raises mon = (Inl (PyException ''ValueError'' ''invalid input''), mon)"

text \<open>
  For stating what was logged: the level, category and message of the rows of the errors
  table, in insertion order.
\<close>

definition error_trace :: "monitor \<Rightarrow> (string \<times> string \<times> string) list" where
  "error_trace mon =
     map (\<lambda>r. (level (cols r), error_type (cols r), message (cols r))) (errors (db mon))"

text \<open>The \<^verbatim>\<open>:.2f\<close> formatting is never reached in the evaluations that use this stand-in.\<close>

definition no_format :: "real \<Rightarrow> string" where
  "no_format x = []"

section \<open>The store\<close>

subsection \<open>Ordering and limiting\<close>

lemma sorted_order_by:
  "sorted (map (\<lambda>r. - int (created_at r)) (order_by_created_at_desc rows))"
  by (simp add: order_by_created_at_desc_def)

lemma set_order_by [simp]: "set (order_by_created_at_desc rows) = set rows"
  by (simp add: order_by_created_at_desc_def)

lemma length_order_by [simp]: "length (order_by_created_at_desc rows) = length rows"
  by (simp add: order_by_created_at_desc_def)

lemma distinct_order_by [simp]: "distinct (order_by_created_at_desc rows) = distinct rows"
  by (simp add: order_by_created_at_desc_def)


lemma filter_eq_singleton:
  "distinct xs \<Longrightarrow> k \<in> set xs \<Longrightarrow> filter (\<lambda>x. x = k) xs = [k]"
  by (induction xs) (auto simp: filter_empty_conv)

lemma order_by_increasing:
  assumes "sorted_wrt (<) (map created_at rows)"
  shows "order_by_created_at_desc rows = rev rows"
proof -
  have "sorted_wrt (\<lambda>a b. created_at a < created_at b) rows"
    using assms by (simp add: sorted_wrt_map)
  then have "sorted_wrt (\<lambda>a b. created_at b < created_at a) (rev rows)"
    by (simp add: sorted_wrt_rev)
  then have "sorted_wrt (\<lambda>a b. - int (created_at a) \<le> - int (created_at b)) (rev rows)"
    by (rule sorted_wrt_mono_rel[rotated]) simp
  then have s: "sorted (map (\<lambda>r. - int (created_at r)) (rev rows))"
    by (simp add: sorted_wrt_map)
  have inj: "inj_on created_at (set rows)"
    using assms by (simp add: strict_sorted_iff distinct_map)
  show ?thesis
    unfolding order_by_created_at_desc_def
  proof (rule properties_for_sort_key)
    show "mset (rev rows) = mset rows" by simp
    show "sorted (map (\<lambda>r. - int (created_at r)) (rev rows))" by (rule s)
    fix k assume "k \<in> set (rev rows)"
    then have k: "k \<in> set rows" by simp
    have d: "distinct rows" using assms by (simp add: strict_sorted_iff distinct_map)
    have eq: "(created_at k = created_at x) = (x = k)" if "x \<in> set rows" for x
      using inj_on_eq_iff[OF inj k that] by auto
    have "filter (\<lambda>x. - int (created_at k) = - int (created_at x)) (rev rows) = filter (\<lambda>x. x = k) (rev rows)"
      by (rule filter_cong) (auto simp: eq)
    moreover have "filter (\<lambda>x. - int (created_at k) = - int (created_at x)) rows = filter (\<lambda>x. x = k) rows"
      by (rule filter_cong) (auto simp: eq)
    moreover have "filter (\<lambda>x. x = k) (rev rows) = [k]" "filter (\<lambda>x. x = k) rows = [k]"
      using d k by (simp_all add: filter_eq_singleton)
    ultimately show "filter (\<lambda>x. - int (created_at k) = - int (created_at x)) (rev rows)
        = filter (\<lambda>x. - int (created_at k) = - int (created_at x)) rows"
      by simp
  qed
qed


subsection \<open>Eviction\<close>

lemma filter_by_ids:
  assumes "distinct (map row_id rows)" and "set S \<subseteq> set rows"
  shows "filter (\<lambda>r. row_id r \<in> set (map row_id S)) rows = filter (\<lambda>r. r \<in> set S) rows"
proof (rule filter_cong)
  fix r assume r: "r \<in> set rows"
  have inj: "inj_on row_id (set rows)" using assms(1) by (simp add: distinct_map)
  show "(row_id r \<in> set (map row_id S)) = (r \<in> set S)"
  proof
    assume "row_id r \<in> set (map row_id S)"
    then obtain s where s: "s \<in> set S" "row_id s = row_id r" by auto
    with assms(2) have "s \<in> set rows" by auto
    with inj r s(2) have "s = r" by (auto dest: inj_onD)
    with s(1) show "r \<in> set S" by simp
  qed simp
qed simp

lemma set_sql_limit_subset: "set (sql_limit n xs) \<subseteq> set xs"
  by (auto simp: sql_limit_def dest: in_set_takeD)

lemma metrics_cleanup:
  assumes "distinct (map row_id (metrics d))"
  shows "metrics (cleanup_old_metrics n d) =
         filter (\<lambda>r. r \<in> set (sql_limit n (order_by_created_at_desc (metrics d)))) (metrics d)"
proof -
  have "set (sql_limit n (order_by_created_at_desc (metrics d))) \<subseteq> set (metrics d)"
    using set_sql_limit_subset[of n "order_by_created_at_desc (metrics d)"] by simp
  from filter_by_ids[OF assms this] show ?thesis
    by (simp add: cleanup_old_metrics_def kept_ids_def)
qed

lemma length_cleanup:
  assumes "distinct (map row_id (metrics d))" and "0 \<le> n"
  shows "length (metrics (cleanup_old_metrics n d)) = min (nat n) (length (metrics d))"
proof -
  let ?S = "take (nat n) (order_by_created_at_desc (metrics d))"
  have d: "distinct (metrics d)" using assms(1) by (simp add: distinct_map)
  have sub: "set ?S \<subseteq> set (metrics d)"
    using set_take_subset[of "nat n" "order_by_created_at_desc (metrics d)"] by simp
  have "length (metrics (cleanup_old_metrics n d)) = card ({x. x \<in> set ?S} \<inter> set (metrics d))"
    using assms(2) by (simp add: metrics_cleanup[OF assms(1)] sql_limit_def distinct_length_filter[OF d])
  also have "{x. x \<in> set ?S} \<inter> set (metrics d) = set ?S" using sub by auto
  also have "card (set ?S) = length ?S" using d by (simp add: distinct_card)
  finally show ?thesis by (simp add: min.commute)
qed












subsection \<open>The cap on the metrics table\<close>

lemma reachable_ids:
  "reachable mx d k \<Longrightarrow>
   distinct (map row_id (metrics d)) \<and> (\<forall>r\<in>set (metrics d). row_id r \<le> metrics_seq d)"
proof (induction rule: reachable.induct)
  case fresh
  then show ?case by (simp add: initialize_database_def)
next
  case (metric_saved d k m t)
  then show ?case by (fastforce simp: save_metric_def)
next
  case (error_saved d k e t)
  then show ?case by (simp add: save_error_def)
next
  case (cleaned d k)
  then show ?case by (auto simp: cleanup_old_metrics_def distinct_map_filter)
qed

lemma reachable_bound:
  assumes "reachable mx d k" and "0 \<le> mx"
  shows "length (metrics d) \<le> nat mx + k"
  using assms
proof (induction rule: reachable.induct)
  case fresh
  then show ?case by (simp add: initialize_database_def)
next
  case (metric_saved d k m t)
  then show ?case by (simp add: save_metric_def)
next
  case (error_saved d k e t)
  then show ?case by (simp add: save_error_def)
next
  case (cleaned d k)
  from reachable_ids[OF cleaned.hyps] have "distinct (map row_id (metrics d))" by simp
  from length_cleanup[OF this cleaned.prems] show ?case by simp
qed

lemma reachable_saves:
  "reachable mx ((save_metric m t ^^ j) initialize_database) j"
  by (induction j) (auto intro: reachable.intros)

lemma length_saves:
  "length (metrics ((save_metric m t ^^ j) d)) = length (metrics d) + j"
  by (induction j) (auto simp: save_metric_def)

text \<open>
  C6 (amended). In a state of the store reached from a fresh database by saves and
  cleanups with \<open>MAX_HISTORY_RECORDS \<ge> 0\<close>, the metrics table holds at most
  \<open>MAX_HISTORY_RECORDS\<close> rows plus the number of metrics saved since the last cleanup;
  right after a cleanup it holds at most \<open>MAX_HISTORY_RECORDS\<close> rows.
\<close>

theorem metrics_bounded_after_cleanup:
  "reachable mx d k \<Longrightarrow> 0 \<le> mx \<Longrightarrow>
     length (metrics d) \<le> nat mx + k \<and>
     length (metrics (cleanup_old_metrics mx d)) \<le> nat mx"
  using reachable_bound[of mx d k] reachable_bound[OF reachable.cleaned, of mx d k] by simp

theorem metrics_bounded_after_cleanup_witness:
  "reachable 1 (save_metric example_metric 2 (save_metric example_metric 1 initialize_database)) 2 \<and>
   (0::int) \<le> 1 \<and>
   length (metrics (save_metric example_metric 2 (save_metric example_metric 1 initialize_database))) = 2 \<and>
   length (metrics (cleanup_old_metrics 1
     (save_metric example_metric 2 (save_metric example_metric 1 initialize_database)))) \<le> 1"
proof -
  have r: "reachable 1 (save_metric example_metric 2 (save_metric example_metric 1 initialize_database)) (Suc (Suc 0))"
    by (rule reachable.metric_saved[OF reachable.metric_saved[OF reachable.fresh]])
  have l: "length (metrics (save_metric example_metric 2 (save_metric example_metric 1 initialize_database))) = 2"
    by (simp add: save_metric_def initialize_database_def)
  from metrics_bounded_after_cleanup[OF r] r l show ?thesis by (simp add: numeral_2_eq_2)
qed

text \<open>
  The claim as stated fails between two cleanups: with the default cap of 10000, the
  state after 10001 instrumented operations is reachable and holds 10001 metric rows.
\<close>

theorem cap_exceeded_between_cleanups:
  "reachable 10000 ((save_metric example_metric 0 ^^ 10001) initialize_database) 10001 \<and>
   length (metrics ((save_metric example_metric 0 ^^ 10001) initialize_database)) = 10001 \<and>
   \<not> length (metrics ((save_metric example_metric 0 ^^ 10001) initialize_database)) \<le> nat 10000"
  by (rule conjI[OF reachable_saves]) (simp add: length_saves initialize_database_def)

subsection \<open>Querying the errors\<close>

lemma limit_newer:
  assumes "r \<in> set (sql_limit n (order_by_created_at_desc rows))"
    and "r' \<in> set rows" and "r' \<notin> set (sql_limit n (order_by_created_at_desc rows))"
  shows "created_at r' \<le> created_at r"
proof (cases "n < 0")
  case True
  with assms(2,3) show ?thesis by (simp add: sql_limit_def)
next
  case False
  let ?S = "order_by_created_at_desc rows"
  from False assms(1) have r: "r \<in> set (take (nat n) ?S)" by (simp add: sql_limit_def)
  from False assms(3) have "r' \<notin> set (take (nat n) ?S)" by (simp add: sql_limit_def)
  moreover have "set ?S = set (take (nat n) ?S) \<union> set (drop (nat n) ?S)"
    by (metis append_take_drop_id set_append)
  ultimately have r': "r' \<in> set (drop (nat n) ?S)" using assms(2) by auto
  have "sorted (map (\<lambda>r. - int (created_at r)) (take (nat n) ?S @ drop (nat n) ?S))"
    using sorted_order_by[of rows] by simp
  then have "\<forall>x\<in>set (take (nat n) ?S). \<forall>y\<in>set (drop (nat n) ?S).
      - int (created_at x) \<le> - int (created_at y)"
    unfolding map_append sorted_append by auto
  with r r' show ?thesis by fastforce
qed

lemma sorted_desc_sql_limit:
  "sorted_wrt (\<lambda>a b. created_at b \<le> created_at a) (sql_limit n (order_by_created_at_desc rows))"
proof -
  have "sorted_wrt (\<lambda>a b. created_at b \<le> created_at a) (order_by_created_at_desc rows)"
    using sorted_order_by[of rows] by (simp add: sorted_wrt_map)
  then show ?thesis by (simp add: sql_limit_def sorted_wrt_take)
qed

lemma upper_char_idem: "upper_char (upper_char c) = upper_char c"
  by (auto simp: upper_char_def Let_def)

lemma upper_idem: "upper (upper l) = upper l"
  by (simp add: upper_def upper_char_idem)

lemma upper_Nil_iff: "(upper l = []) = (l = [])"
  by (simp add: upper_def)

lemma upper_warning: "upper ''warning'' = ''WARNING''"
  by code_simp

lemma where_eq_filter:
  "where_api_key key (where_level lvl rows)
   = filter (\<lambda>r. (case lvl of None \<Rightarrow> True | Some l \<Rightarrow> l = [] \<or> level (cols r) = upper l) \<and>
                  (case key of None \<Rightarrow> True | Some k \<Rightarrow> k = [] \<or> err_api_key (cols r) = Some k))
       rows"
proof -
  have k: "where_api_key key xs
        = filter (\<lambda>r. case key of None \<Rightarrow> True | Some k \<Rightarrow> k = [] \<or> err_api_key (cols r) = Some k) xs"
    for xs
    by (cases key) (auto simp: where_api_key_def truthy_def)
  have l: "where_level lvl rows
        = filter (\<lambda>r. case lvl of None \<Rightarrow> True | Some l \<Rightarrow> l = [] \<or> level (cols r) = upper l) rows"
    by (cases lvl) (auto simp: where_level_def)
  show ?thesis unfolding k l by (simp add: conj_commute)
qed

lemma where_level_upper: "where_level (map_option upper lvl) rows = where_level lvl rows"
  by (cases lvl) (simp_all add: where_level_def upper_idem upper_Nil_iff)

lemma mset_sql_limit: "mset (sql_limit n ys) \<subseteq># mset ys"
proof -
  have "mset (take k ys) \<subseteq># mset ys" for k
    by (metis append_take_drop_id mset_append mset_subset_eq_add_left)
  then show ?thesis by (simp add: sql_limit_def)
qed

lemma created_at_increasing_filter:
  "sorted_wrt (<) (map created_at rows) \<Longrightarrow> sorted_wrt (<) (map created_at (filter P rows))"
  by (simp add: sorted_wrt_map sorted_wrt_filter)

lemma get_errors_overflow:
  "limit < - (2 ^ 63) \<or> 2 ^ 63 \<le> limit \<Longrightarrow> get_errors limit lvl key d = Inl OverflowError"
  by (auto simp: get_errors_def bind_integer_def)

text \<open>
  C7 (amended). For a \<open>limit\<close> in SQLite's 64-bit range, \<^verbatim>\<open>get_errors(limit, level, api_key)\<close>
  returns rows of the errors table that pass the filters, each at most as often as the
  table holds it, by decreasing \<open>created_at\<close>: \<open>min limit (number of matching rows)\<close> of
  them when \<open>limit \<ge> 0\<close> and all of them when \<open>limit\<close> is negative, and no matching row
  that is left out is newer than a returned one. A row passes a non-empty \<open>level\<close> when
  its stored level equals \<open>level.upper()\<close>, and a non-empty \<open>api_key\<close> when its owner is
  that key; \<open>level\<close> and \<open>level.upper()\<close> give the same result. When \<open>created_at\<close>
  strictly increases in insertion order, the result is the matching rows most recently
  inserted first. For a \<open>limit\<close> outside the 64-bit range the call raises
  \<^verbatim>\<open>OverflowError\<close>.
\<close>

theorem get_errors_newest_first:
  "if - (2 ^ 63) \<le> limit \<and> limit < 2 ^ 63
   then
     (let matching =
        filter (\<lambda>r. (case lvl of None \<Rightarrow> True | Some l \<Rightarrow> l = [] \<or> level (cols r) = upper l) \<and>
                     (case key of None \<Rightarrow> True | Some k \<Rightarrow> k = [] \<or> err_api_key (cols r) = Some k))
          (errors d)
      in \<exists>rows. get_errors limit lvl key d = Inr rows \<and>
           length rows = (if limit < 0 then length matching else min (nat limit) (length matching)) \<and>
           mset rows \<subseteq># mset matching \<and>
           sorted_wrt (\<lambda>a b. created_at b \<le> created_at a) rows \<and>
           (\<forall>r\<in>set rows. \<forall>r'\<in>set matching - set rows. created_at r' \<le> created_at r) \<and>
           (sorted_wrt (<) (map created_at (errors d)) \<longrightarrow>
              rows = (if limit < 0 then rev matching else take (nat limit) (rev matching))) \<and>
           get_errors limit (map_option upper lvl) key d = Inr rows)
   else get_errors limit lvl key d = Inl OverflowError"
proof (cases "- (2 ^ 63) \<le> limit \<and> limit < 2 ^ 63")
  case False
  then show ?thesis by (auto simp: get_errors_def bind_integer_def)
next
  case True
  let ?P = "\<lambda>r. (case lvl of None \<Rightarrow> True | Some l \<Rightarrow> l = [] \<or> level (cols r) = upper l) \<and>
                     (case key of None \<Rightarrow> True | Some k \<Rightarrow> k = [] \<or> err_api_key (cols r) = Some k)"
  let ?W = "filter ?P (errors d)"
  let ?rows = "sql_limit limit (order_by_created_at_desc ?W)"
  have g: "get_errors limit lvl key d = Inr ?rows"
    using True by (simp add: get_errors_def bind_integer_def where_eq_filter)
  have a: "length ?rows = (if limit < 0 then length ?W else min (nat limit) (length ?W))"
    by (simp add: sql_limit_def min.commute)
  have b: "mset ?rows \<subseteq># mset ?W"
    using mset_sql_limit[of limit "order_by_created_at_desc ?W"]
    by (simp add: order_by_created_at_desc_def)
  have c: "sorted_wrt (\<lambda>a b. created_at b \<le> created_at a) ?rows"
    by (rule sorted_desc_sql_limit)
  have e: "\<forall>r\<in>set ?rows. \<forall>r'\<in>set ?W - set ?rows. created_at r' \<le> created_at r"
    using limit_newer[of _ limit ?W] by blast
  have f: "?rows = (if limit < 0 then rev ?W else take (nat limit) (rev ?W))"
    if "sorted_wrt (<) (map created_at (errors d))"
    using order_by_increasing[OF created_at_increasing_filter[OF that, of ?P]]
    by (simp add: sql_limit_def)
  have u: "get_errors limit (map_option upper lvl) key d = Inr ?rows"
    using True by (simp add: get_errors_def bind_integer_def where_level_upper where_eq_filter)
  have "\<exists>rows. get_errors limit lvl key d = Inr rows \<and>
           length rows = (if limit < 0 then length ?W else min (nat limit) (length ?W)) \<and>
           mset rows \<subseteq># mset ?W \<and>
           sorted_wrt (\<lambda>a b. created_at b \<le> created_at a) rows \<and>
           (\<forall>r\<in>set rows. \<forall>r'\<in>set ?W - set rows. created_at r' \<le> created_at r) \<and>
           (sorted_wrt (<) (map created_at (errors d)) \<longrightarrow>
              rows = (if limit < 0 then rev ?W else take (nat limit) (rev ?W))) \<and>
           get_errors limit (map_option upper lvl) key d = Inr rows"
  proof (intro exI[of _ ?rows] conjI impI)
    show "get_errors limit lvl key d = Inr ?rows" by (rule g)
    show "length ?rows = (if limit < 0 then length ?W else min (nat limit) (length ?W))" by (rule a)
    show "mset ?rows \<subseteq># mset ?W" by (rule b)
    show "sorted_wrt (\<lambda>a b. created_at b \<le> created_at a) ?rows" by (rule c)
    show "\<forall>r\<in>set ?rows. \<forall>r'\<in>set ?W - set ?rows. created_at r' \<le> created_at r" by (rule e)
    show "?rows = (if limit < 0 then rev ?W else take (nat limit) (rev ?W))"
      if "sorted_wrt (<) (map created_at (errors d))" using that by (rule f)
    show "get_errors limit (map_option upper lvl) key d = Inr ?rows" by (rule u)
  qed
  then show ?thesis unfolding Let_def if_P[OF True] .
qed


text \<open>
  Three WARNING and two ERROR rows at distinct times, \<open>limit = 2\<close>, \<open>level = "warning"\<close>:
  the two newest WARNING rows, newest first; the same query with \<open>limit = 2^63\<close> raises.
\<close>

theorem get_errors_newest_first_witness:
  "- (2 ^ 63) \<le> (2::int) \<and> (2::int) < 2 ^ 63 \<and>
   sorted_wrt (<) (map created_at (errors five_errors)) \<and>
   map_sum id (map (\<lambda>r. (row_id r, created_at r, level (cols r), err_api_key (cols r))))
       (get_errors 2 (Some ''warning'') (Some ''pm_alice'') five_errors)
     = Inr [(5, 5, ''WARNING'', Some ''pm_alice''), (3, 3, ''WARNING'', Some ''pm_alice'')] \<and>
   get_errors 2 (Some ''WARNING'') (Some ''pm_alice'') five_errors
     = get_errors 2 (Some ''warning'') (Some ''pm_alice'') five_errors \<and>
   get_errors (2 ^ 63) (Some ''warning'') (Some ''pm_alice'') five_errors = Inl OverflowError"
proof -
  have s: "sorted_wrt (<) (map created_at (errors five_errors))"
    by (simp add: five_errors_def save_error_def initialize_database_def)
  have m: "filter (\<lambda>r. (case Some ''warning'' of None \<Rightarrow> True
                          | Some l \<Rightarrow> l = [] \<or> level (cols r) = upper l) \<and>
                        (case Some ''pm_alice'' of None \<Rightarrow> True
                          | Some k \<Rightarrow> k = [] \<or> err_api_key (cols r) = Some k))
             (errors five_errors)
           = [\<lparr>row_id = 1, created_at = 1, cols = example_error ''WARNING''\<rparr>,
              \<lparr>row_id = 3, created_at = 3, cols = example_error ''WARNING''\<rparr>,
              \<lparr>row_id = 5, created_at = 5, cols = example_error ''WARNING''\<rparr>]"
    by (simp add: five_errors_def save_error_def initialize_database_def upper_warning
        example_error_def)
  from get_errors_newest_first [of 2 "Some ''warning''" "Some ''pm_alice''" five_errors]
  obtain rows where g: "get_errors 2 (Some ''warning'') (Some ''pm_alice'') five_errors = Inr rows"
    and r: "rows = [\<lparr>row_id = 5, created_at = 5, cols = example_error ''WARNING''\<rparr>,
                    \<lparr>row_id = 3, created_at = 3, cols = example_error ''WARNING''\<rparr>]"
    and u: "get_errors 2 (Some (upper ''warning'')) (Some ''pm_alice'') five_errors = Inr rows"
    unfolding Let_def m using s by auto
  from get_errors_newest_first [of "2 ^ 63" "Some ''warning''" "Some ''pm_alice''" five_errors]
  have o: "get_errors (2 ^ 63) (Some ''warning'') (Some ''pm_alice'') five_errors = Inl OverflowError"
    by simp
  from g r u o s show ?thesis
    unfolding upper_warning by (simp add: example_error_def)
qed

text \<open>
  The claim as stated fails in four ways. A \<open>limit\<close> of \<open>2^63\<close>
  (\<^verbatim>\<open>GET /api/errors?limit=9223372036854775808\<close>) returns nothing: the call raises
  \<^verbatim>\<open>OverflowError\<close>. A \<open>limit\<close> of \<open>-1\<close> returns all five rows. After an insert at
  clock 10 and a second insert at clock 5, the most recently inserted row (id 2) comes
  last. A row logged with level \<open>warning\<close> is not returned by the query for level
  \<open>warning\<close>, which asks for \<open>WARNING\<close>.
\<close>

theorem get_errors_raises_or_unbounded:
  "get_errors (2 ^ 63) None None five_errors = Inl OverflowError \<and>
   map_sum id (map row_id) (get_errors (- 1) None None five_errors) = Inr [5, 4, 3, 2, 1] \<and>
   map_sum id (map row_id)
     (get_errors 2 None None
        (save_error (example_error ''ERROR'') 5
          (save_error (example_error ''ERROR'') 10 initialize_database))) = Inr [1, 2] \<and>
   error_trace (snd (log_error ''TEST_ERROR'' ''This is a test error'' ''test_error'' ''warning''
        None example_log_reads PerformanceMonitor_init))
     = [(''warning'', ''TEST_ERROR'', ''This is a test error'')] \<and>
   get_errors 50 (Some ''warning'') None
     (db (snd (log_error ''TEST_ERROR'' ''This is a test error'' ''test_error'' ''warning''
        None example_log_reads PerformanceMonitor_init))) = Inr []"
proof -
  have a: "get_errors (2 ^ 63) None None five_errors = Inl OverflowError"
    by (simp add: get_errors_def bind_integer_def)
  have b: "map_sum id (map row_id) (get_errors (- 1) None None five_errors) = Inr [5, 4, 3, 2, 1]"
    by (simp add: get_errors_def bind_integer_def sql_limit_def where_api_key_def where_level_def
        truthy_def five_errors_def save_error_def initialize_database_def
        order_by_created_at_desc_def)
  have c: "map_sum id (map row_id)
     (get_errors 2 None None
        (save_error (example_error ''ERROR'') 5
          (save_error (example_error ''ERROR'') 10 initialize_database))) = Inr [1, 2]"
    by (simp add: get_errors_def bind_integer_def sql_limit_def where_api_key_def where_level_def
        truthy_def save_error_def initialize_database_def order_by_created_at_desc_def)
  have d: "error_trace (snd (log_error ''TEST_ERROR'' ''This is a test error'' ''test_error'' ''warning''
        None example_log_reads PerformanceMonitor_init))
     = [(''warning'', ''TEST_ERROR'', ''This is a test error'')]"
    by (simp add: error_trace_def log_error_def calculate_performance_impact_def
        get_system_metrics_def read_psutil_def example_log_reads_def host_up_def save_error_def PerformanceMonitor_init_def
        initialize_database_def)
  have e: "get_errors 50 (Some ''warning'') None
     (db (snd (log_error ''TEST_ERROR'' ''This is a test error'' ''test_error'' ''warning''
        None example_log_reads PerformanceMonitor_init))) = Inr []"
    by (simp add: get_errors_def bind_integer_def sql_limit_def where_api_key_def where_level_def
        truthy_def upper_warning log_error_def calculate_performance_impact_def
        get_system_metrics_def read_psutil_def example_log_reads_def host_up_def save_error_def PerformanceMonitor_init_def
        initialize_database_def order_by_created_at_desc_def)
  from a b c d e show ?thesis by blast
qed

section \<open>The sampler and the derived impact\<close>

lemma get_system_metrics_returns:
  "get_system_metrics h = Inr (case read_psutil h of Inl e \<Rightarrow> None | Inr d \<Rightarrow> Some d)"
  by (simp add: get_system_metrics_def split: sum.split)

lemma read_psutil_raises:
  assumes "psutil_cpu_percent h = Inl e \<or> psutil_virtual_memory h = Inl e \<or>
           psutil_disk_usage h = Inl e \<or> psutil_net_io_counters h = Inl e"
  shows "\<exists>e'. read_psutil h = Inl e'"
  using assms by (auto simp: read_psutil_def split: sum.split)

text \<open>
  The sampler on its own: whatever the four psutil reads do, \<^verbatim>\<open>_get_system_metrics\<close>
  returns a dict and raises nothing; when one of the reads raises, the dict is the empty
  one, from which every \<^verbatim>\<open>.get(key, 0)\<close> of the code reads 0.
\<close>

theorem get_system_metrics_never_raises:
  "(\<exists>d. get_system_metrics h = Inr d) \<and>
   (psutil_cpu_percent h = Inl e \<or> psutil_virtual_memory h = Inl e \<or>
    psutil_disk_usage h = Inl e \<or> psutil_net_io_counters h = Inl e
    \<longrightarrow> get_system_metrics h = Inr None) \<and>
   get_cpu_usage None = 0 \<and> get_memory_usage None = 0 \<and> get_disk_usage None = 0 \<and>
   get_bytes_sent None = 0 \<and> get_bytes_recv None = 0"
proof -
  have "\<exists>d. get_system_metrics h = Inr d"
    by (simp add: get_system_metrics_returns)
  moreover have "get_system_metrics h = Inr None"
    if "psutil_cpu_percent h = Inl e \<or> psutil_virtual_memory h = Inl e \<or>
        psutil_disk_usage h = Inl e \<or> psutil_net_io_counters h = Inl e"
    using read_psutil_raises[OF that] by (auto simp: get_system_metrics_returns)
  ultimately show ?thesis
    by (simp add: get_cpu_usage_def get_memory_usage_def get_disk_usage_def
        get_bytes_sent_def get_bytes_recv_def)
qed

theorem get_system_metrics_never_raises_witness:
  "psutil_cpu_percent host_down = Inl (PyException ''PermissionError'' ''access denied'') \<and>
   get_system_metrics host_down = Inr None \<and> get_cpu_usage None = 0"
  using get_system_metrics_never_raises
    [of host_down "PyException ''PermissionError'' ''access denied''"]
  by (simp add: host_down_def)

text \<open>
  C5. \<^verbatim>\<open>_calculate_performance_impact\<close> returns, and on the sample \<open>m\<close> it took:
  \<open>cpu_impact = max 0 (cpu_usage - 20)\<close>, \<open>memory_impact = max 0 (memory_usage - 30)\<close>,
  \<open>overall_severity = min 10 ((cpu_usage + memory_usage) / 20)\<close>. Both impacts are at
  least 0 and the severity is at most 10; when the sampled usages are not negative, the
  severity is at least 0.
\<close>

theorem calculate_performance_impact_formula:
  "\<exists>i m. calculate_performance_impact h = Inr i \<and> get_system_metrics h = Inr m \<and>
     key_cpu_impact i = max 0 (get_cpu_usage m - 20) \<and>
     key_memory_impact i = max 0 (get_memory_usage m - 30) \<and>
     key_overall_severity i = min 10 ((get_cpu_usage m + get_memory_usage m) / 20) \<and>
     0 \<le> key_cpu_impact i \<and> 0 \<le> key_memory_impact i \<and> key_overall_severity i \<le> 10 \<and>
     (0 \<le> get_cpu_usage m \<and> 0 \<le> get_memory_usage m \<longrightarrow> 0 \<le> key_overall_severity i)"
  by (simp add: calculate_performance_impact_def get_system_metrics_returns)

theorem calculate_performance_impact_formula_witness:
  "calculate_performance_impact (host_up 85) =
     Inr \<lparr>key_cpu_impact = 65, key_memory_impact = 10, key_overall_severity = 25 / 4\<rparr> \<and>
   (0::real) \<le> 85 \<and> (0::real) \<le> 40"
  using calculate_performance_impact_formula [of "host_up 85"]
  by (simp add: host_up_def calculate_performance_impact_def get_system_metrics_def
      read_psutil_def get_cpu_usage_def get_memory_usage_def)

section \<open>The diagnostic lookups\<close>

lemma explanations_entries:
  "set [''HIGH_CPU_USAGE'', ''HIGH_MEMORY_USAGE'', ''DISK_SPACE_LOW'', ''SLOW_RESPONSE'',
        ''NETWORK_ERROR'', ''DATABASE_ERROR'', ''AUTHENTICATION_ERROR'', ''RATE_LIMIT_EXCEEDED'']
     = dom (map_of explanations)"
  by (simp add: explanations_def dom_map_of_conv_image_fst)

lemma fixes_entries:
  "set [''HIGH_CPU_USAGE'', ''HIGH_MEMORY_USAGE'', ''DISK_SPACE_LOW'', ''SLOW_RESPONSE'',
        ''NETWORK_ERROR'', ''AUTHENTICATION_ERROR'', ''RATE_LIMIT_EXCEEDED'']
     = dom (map_of fixes_table)"
  by (simp add: fixes_table_def dom_map_of_conv_image_fst)

lemma explanation_fallback:
  assumes "etype \<notin> dom (map_of explanations)"
  shows "generate_error_explanation etype msg
           = ''An error of type '' @ [CHR 0x27] @ etype @ [CHR 0x27] @ '' occurred: '' @ msg"
    and "generate_error_explanation etype msg \<noteq> []"
  using assms by (auto simp: generate_error_explanation_def split: option.splits)

lemma suggested_fix_fallback:
  assumes "etype \<notin> dom (map_of fixes_table)"
  shows "generate_suggested_fix etype msg
           = ''Review the error details and implement appropriate error handling for ''
             @ [CHR 0x27] @ etype @ [CHR 0x27] @ ''.''"
    and "generate_suggested_fix etype msg \<noteq> []"
  using assms by (auto simp: generate_suggested_fix_def split: option.splits)

lemma lookups_never_empty:
  "generate_error_explanation etype msg \<noteq> [] \<and> generate_suggested_fix etype msg \<noteq> []"
proof -
  have "\<forall>t\<in>ran (map_of explanations). t \<noteq> []"
    by (auto simp: explanations_def ran_def split: if_splits)
  moreover have "\<forall>t\<in>ran (map_of fixes_table). t \<noteq> []"
    by (auto simp: fixes_table_def ran_def split: if_splits)
  ultimately show ?thesis
    by (auto simp: generate_error_explanation_def generate_suggested_fix_def ran_def
        split: option.splits)
qed

text \<open>
  C8. The claim fails on the code for \<open>DATABASE_ERROR\<close>: the dict \<^verbatim>\<open>explanations\<close> has
  an entry for it, the dict \<^verbatim>\<open>fixes\<close> has none, and \<^verbatim>\<open>_generate_suggested_fix\<close>
  returns the fallback text for unknown categories.
\<close>

theorem suggested_fix_database_error_missing:
  "map_of explanations ''DATABASE_ERROR''
     = Some ''Database operation failed, potentially due to connection issues or query problems.'' \<and>
   map_of fixes_table ''DATABASE_ERROR'' = None \<and>
   generate_suggested_fix ''DATABASE_ERROR'' ''database is locked''
     = ''Review the error details and implement appropriate error handling for ''
       @ [CHR 0x27] @ ''DATABASE_ERROR'' @ [CHR 0x27] @ ''.''"
  by (simp add: explanations_def fixes_table_def generate_suggested_fix_def)

section \<open>The instrumentation wrapper\<close>

subsection \<open>What log\_error writes\<close>

lemma calculate_performance_impact_returns:
  "\<exists>i. calculate_performance_impact h = Inr i"
  by (simp add: calculate_performance_impact_def get_system_metrics_returns)

lemma log_error_returns:
  "\<exists>e. log_error etype msg fname lvl key rd mon =
         (Inr (), mon\<lparr>db := save_error e (log_current_timestamp rd) (db mon)\<rparr>) \<and>
       level e = lvl \<and> error_type e = etype \<and> message e = msg \<and>
       err_function_name e = fname \<and> err_api_key e = key"
  using calculate_performance_impact_returns[of "log_host rd"]
  by (auto simp: log_error_def)

lemma log_error_thresholds [simp]:
  "thresholds (snd (log_error etype msg fname lvl key rd mon)) = thresholds mon"
  using log_error_returns[of etype msg fname lvl key rd mon] by auto

lemma log_error_metrics [simp]:
  "metrics (db (snd (log_error etype msg fname lvl key rd mon))) = metrics (db mon)"
  using log_error_returns[of etype msg fname lvl key rd mon] by (auto simp: save_error_def)

lemma log_error_metrics_seq [simp]:
  "metrics_seq (db (snd (log_error etype msg fname lvl key rd mon))) = metrics_seq (db mon)"
  using log_error_returns[of etype msg fname lvl key rd mon] by (auto simp: save_error_def)

lemma log_error_fst [simp]:
  "fst (log_error etype msg fname lvl key rd mon) = Inr ()"
  using log_error_returns[of etype msg fname lvl key rd mon] by auto

text \<open>The level and category of the rows of the errors table, in insertion order.\<close>

lemma log_error_errors [simp]:
  "map (\<lambda>r. (level (cols r), error_type (cols r), message (cols r)))
       (errors (db (snd (log_error etype msg fname lvl key rd mon))))
   = map (\<lambda>r. (level (cols r), error_type (cols r), message (cols r))) (errors (db mon))
     @ [(lvl, etype, msg)]"
  using log_error_returns[of etype msg fname lvl key rd mon] by (auto simp: save_error_def)

subsection \<open>The thresholds are only written by the route\<close>

lemma check_cpu_thresholds [simp]:
  "thresholds (snd (check_cpu fmt fname key rd m mon)) = thresholds mon"
  by (simp add: check_cpu_def split: sum.split)

lemma check_response_time_thresholds [simp]:
  "thresholds (snd (check_response_time fmt fname key rd x mon)) = thresholds mon"
  by (simp add: check_response_time_def split: sum.split)

lemma finally_block_thresholds [simp]:
  "thresholds (snd (finally_block fmt fname key rd mon)) = thresholds mon"
proof -
  obtain m where m: "get_system_metrics (end_host rd) = Inr m"
    by (simp add: get_system_metrics_returns)
  obtain r1 mon1 where c: "check_cpu fmt fname key (cpu_reads rd) m mon = (r1, mon1)"
    by (cases "check_cpu fmt fname key (cpu_reads rd) m mon")
  have t1: "thresholds mon1 = thresholds mon"
    using check_cpu_thresholds[of fmt fname key "cpu_reads rd" m mon] c by simp
  obtain r2 mon2 where s: "check_response_time fmt fname key (slow_reads rd) (end_time rd - start_time rd) mon1 = (r2, mon2)"
    by (cases "check_response_time fmt fname key (slow_reads rd) (end_time rd - start_time rd) mon1")
  have t2: "thresholds mon2 = thresholds mon1"
    using check_response_time_thresholds[of fmt fname key "slow_reads rd" "end_time rd - start_time rd" mon1] s by simp
  show ?thesis
    by (simp add: finally_block_def Let_def m c s t1 t2 split: sum.split)
qed

lemma except_block_thresholds [simp]:
  "thresholds (snd (except_block fname key rd e mon)) = thresholds mon"
proof -
  obtain r mon1 where l: "log_error (upper (exc_name e)) (exc_str e) fname ''ERROR'' key rd mon = (r, mon1)"
    by (cases "log_error (upper (exc_name e)) (exc_str e) fname ''ERROR'' key rd mon")
  have "thresholds mon1 = thresholds mon"
    using log_error_thresholds[of "upper (exc_name e)" "exc_str e" fname "''ERROR''" key rd mon] l by simp
  then show ?thesis by (simp add: except_block_def l split: sum.split)
qed

lemma monitor_function_thresholds:
  "thresholds (snd (monitor_function fmt fname key rd body mon)) = thresholds (snd (body mon))"
proof -
  obtain m where m: "get_system_metrics (start_host rd) = Inr m"
    by (simp add: get_system_metrics_returns)
  obtain r mon1 where b: "body mon = (r, mon1)" by (cases "body mon")
  show ?thesis
  proof (cases r)
    case (Inr v)
    obtain f mon3 where f: "finally_block fmt fname key rd mon1 = (f, mon3)"
      by (cases "finally_block fmt fname key rd mon1")
    have "thresholds mon3 = thresholds mon1"
      using finally_block_thresholds[of fmt fname key rd mon1] f by simp
    then show ?thesis by (simp add: monitor_function_def Let_def m b Inr f split: sum.split)
  next
    case (Inl e)
    obtain e1 mon2 where x: "except_block fname key (except_reads rd) e mon1 = (e1, mon2)"
      by (cases "except_block fname key (except_reads rd) e mon1")
    have t2: "thresholds mon2 = thresholds mon1"
      using except_block_thresholds[of fname key "except_reads rd" e mon1] x by simp
    obtain f mon3 where f: "finally_block fmt fname key rd mon2 = (f, mon3)"
      by (cases "finally_block fmt fname key rd mon2")
    have "thresholds mon3 = thresholds mon2"
      using finally_block_thresholds[of fmt fname key rd mon2] f by simp
    then show ?thesis by (simp add: monitor_function_def Let_def m b Inl x f t2 split: sum.split)
  qed
qed

text \<open>
  C10. A \<^verbatim>\<open>POST /api/thresholds\<close> with the map \<open>new_thresholds\<close> leaves the monitor with
  the old thresholds overridden by the new ones: a key that the map does not mention
  keeps its value, a key that it mentions gets the map's value, and every key of the old
  thresholds is still a key.
\<close>

theorem set_thresholds_frame:
  "thresholds (snd (manage_thresholds_POST fmt key rd new_thresholds mon))
     = thresholds mon ++ new_thresholds \<and>
   (\<forall>k. k \<notin> dom new_thresholds \<longrightarrow>
      thresholds (snd (manage_thresholds_POST fmt key rd new_thresholds mon)) k = thresholds mon k) \<and>
   (\<forall>k\<in>dom new_thresholds.
      thresholds (snd (manage_thresholds_POST fmt key rd new_thresholds mon)) k = new_thresholds k) \<and>
   dom (thresholds mon)
     \<subseteq> dom (thresholds (snd (manage_thresholds_POST fmt key rd new_thresholds mon)))"
proof -
  have "thresholds (snd (manage_thresholds_POST fmt key rd new_thresholds mon))
        = thresholds mon ++ new_thresholds"
    by (simp add: manage_thresholds_POST_def monitor_function_thresholds set_thresholds_def Let_def)
  then show ?thesis by (auto simp: map_add_dom_app_simps map_add_def split: option.splits)
qed

theorem set_thresholds_frame_witness:
  "''memory'' \<notin> dom [''cpu'' \<mapsto> (95::real)] \<and> ''cpu'' \<in> dom [''cpu'' \<mapsto> (95::real)] \<and>
   thresholds (snd (manage_thresholds_POST no_format None (example_reads (host_up 10) 1)
      [''cpu'' \<mapsto> 95] PerformanceMonitor_init)) ''memory'' = Some 80 \<and>
   thresholds (snd (manage_thresholds_POST no_format None (example_reads (host_up 10) 1)
      [''cpu'' \<mapsto> 95] PerformanceMonitor_init)) ''cpu'' = Some 95"
  using set_thresholds_frame [of no_format None "example_reads (host_up 10) 1"
      "[''cpu'' \<mapsto> 95]" PerformanceMonitor_init]
  by (simp add: PerformanceMonitor_init_def)

subsection \<open>What one instrumented call writes\<close>

lemma log_error_step:
  "\<exists>mon1. log_error etype msg fname lvl key rd mon = (Inr (), mon1) \<and>
     thresholds mon1 = thresholds mon \<and> metrics (db mon1) = metrics (db mon) \<and>
     metrics_seq (db mon1) = metrics_seq (db mon) \<and>
     error_trace mon1 = error_trace mon @ [(lvl, etype, msg)]"
  using log_error_returns[of etype msg fname lvl key rd mon]
  by (auto simp: save_error_def error_trace_def)

lemma check_cpu_sampled:
  assumes "thresholds mon ''cpu'' = Some a"
  shows "\<exists>mon1. check_cpu fmt fname key rd (Some s) mon = (Inr (), mon1) \<and>
     thresholds mon1 = thresholds mon \<and> metrics (db mon1) = metrics (db mon) \<and>
     metrics_seq (db mon1) = metrics_seq (db mon) \<and>
     error_trace mon1 = error_trace mon @
       (if key_cpu_usage s > a
        then [(''WARNING'', ''HIGH_CPU_USAGE'', ''CPU usage: '' @ fmt (key_cpu_usage s) @ ''% exceeds threshold'')]
        else [])"
proof (cases "key_cpu_usage s > a")
  case True
  from log_error_step[of "''HIGH_CPU_USAGE''" "''CPU usage: '' @ fmt (key_cpu_usage s) @ ''% exceeds threshold''"
      fname "''WARNING''" key rd mon]
  show ?thesis using True assms
    by (simp add: check_cpu_def index_threshold_def get_cpu_usage_def index_cpu_usage_def)
next
  case False
  then show ?thesis using assms
    by (simp add: check_cpu_def index_threshold_def get_cpu_usage_def)
qed

lemma check_response_time_step:
  assumes "thresholds mon ''response_time'' = Some b"
  shows "\<exists>mon1. check_response_time fmt fname key rd x mon = (Inr (), mon1) \<and>
     thresholds mon1 = thresholds mon \<and> metrics (db mon1) = metrics (db mon) \<and>
     metrics_seq (db mon1) = metrics_seq (db mon) \<and>
     error_trace mon1 = error_trace mon @
       (if x > b
        then [(''WARNING'', ''SLOW_RESPONSE'', ''Execution time: '' @ fmt x @ ''s exceeds threshold'')]
        else [])"
proof (cases "x > b")
  case True
  from log_error_step[of "''SLOW_RESPONSE''" "''Execution time: '' @ fmt x @ ''s exceeds threshold''"
      fname "''WARNING''" key rd mon]
  show ?thesis using True assms
    by (simp add: check_response_time_def index_threshold_def)
next
  case False
  then show ?thesis using assms
    by (simp add: check_response_time_def index_threshold_def)
qed

lemma finally_block_sampled:
  assumes s: "read_psutil (end_host rd) = Inr s"
    and a: "thresholds mon ''cpu'' = Some a"
    and b: "thresholds mon ''response_time'' = Some b"
  shows "\<exists>mon'. finally_block fmt fname key rd mon = (Inr (), mon') \<and>
     metrics (db mon') = metrics (db mon) @
       [\<lparr>row_id = Suc (metrics_seq (db mon)), created_at = metric_current_timestamp rd,
         cols = \<lparr>timestamp = metric_now rd, cpu_usage = key_cpu_usage s,
                 memory_usage = key_memory_usage s, disk_usage = key_disk_usage s,
                 network_sent = key_bytes_sent s, network_recv = key_bytes_recv s,
                 execution_time = end_time rd - start_time rd, function_name = fname,
                 status = ''completed'', api_key = key\<rparr>\<rparr>] \<and>
     error_trace mon' = error_trace mon @
       (if key_cpu_usage s > a
        then [(''WARNING'', ''HIGH_CPU_USAGE'', ''CPU usage: '' @ fmt (key_cpu_usage s) @ ''% exceeds threshold'')]
        else []) @
       (if end_time rd - start_time rd > b
        then [(''WARNING'', ''SLOW_RESPONSE'',
               ''Execution time: '' @ fmt (end_time rd - start_time rd) @ ''s exceeds threshold'')]
        else [])"
proof -
  from check_cpu_sampled[OF a, of fmt fname key "cpu_reads rd" s]
  obtain mon1 where c: "check_cpu fmt fname key (cpu_reads rd) (Some s) mon = (Inr (), mon1)"
    and t1: "thresholds mon1 = thresholds mon" and m1: "metrics (db mon1) = metrics (db mon)"
    and q1: "metrics_seq (db mon1) = metrics_seq (db mon)"
    and e1: "error_trace mon1 = error_trace mon @
       (if key_cpu_usage s > a
        then [(''WARNING'', ''HIGH_CPU_USAGE'', ''CPU usage: '' @ fmt (key_cpu_usage s) @ ''% exceeds threshold'')]
        else [])"
    by blast
  from b t1 have b1: "thresholds mon1 ''response_time'' = Some b" by simp
  from check_response_time_step[OF b1, of fmt fname key "slow_reads rd" "end_time rd - start_time rd"]
  obtain mon2 where r: "check_response_time fmt fname key (slow_reads rd) (end_time rd - start_time rd) mon1 = (Inr (), mon2)"
    and m2: "metrics (db mon2) = metrics (db mon1)"
    and q2: "metrics_seq (db mon2) = metrics_seq (db mon1)"
    and e2: "error_trace mon2 = error_trace mon1 @
       (if end_time rd - start_time rd > b
        then [(''WARNING'', ''SLOW_RESPONSE'',
               ''Execution time: '' @ fmt (end_time rd - start_time rd) @ ''s exceeds threshold'')]
        else [])"
    by blast
  show ?thesis
    by (simp add: finally_block_def Let_def get_system_metrics_returns s c r m1 m2 q1 q2 e1 e2
        save_metric_def error_trace_def[symmetric]
        get_cpu_usage_def get_memory_usage_def get_disk_usage_def get_bytes_sent_def get_bytes_recv_def)
       (simp add: error_trace_def save_metric_def e2[unfolded error_trace_def] e1[unfolded error_trace_def])
qed


lemma except_block_step:
  "\<exists>mon1. except_block fname key rd e mon = (e, mon1) \<and>
     thresholds mon1 = thresholds mon \<and> metrics (db mon1) = metrics (db mon) \<and>
     metrics_seq (db mon1) = metrics_seq (db mon) \<and>
     error_trace mon1 = error_trace mon @ [(''ERROR'', upper (exc_name e), exc_str e)]"
  using log_error_step[of "upper (exc_name e)" "exc_str e" fname "''ERROR''" key rd mon]
  by (auto simp: except_block_def)

text \<open>
  What the wrapper does when the end sample is taken: the caller gets what the body gave
  (its value, or the very exception it raised), the metrics table gains exactly one row,
  with status \<open>completed\<close> and execution time \<open>end_time - start_time\<close>, and the errors
  table gains, in this order, an ERROR row for the exception if there was one, a
  HIGH\_CPU\_USAGE warning exactly when the sampled CPU usage exceeds the \<open>cpu\<close>
  threshold, and a SLOW\_RESPONSE warning exactly when the execution time exceeds the
  \<open>response_time\<close> threshold.
\<close>

lemma monitor_function_sampled:
  assumes body: "body mon = (r, mon1)"
    and s: "read_psutil (end_host rd) = Inr s"
    and a: "thresholds mon1 ''cpu'' = Some a"
    and b: "thresholds mon1 ''response_time'' = Some b"
  shows "\<exists>mon'. monitor_function fmt fname key rd body mon = (r, mon') \<and>
     metrics (db mon') = metrics (db mon1) @
       [\<lparr>row_id = Suc (metrics_seq (db mon1)), created_at = metric_current_timestamp rd,
         cols = \<lparr>timestamp = metric_now rd, cpu_usage = key_cpu_usage s,
                 memory_usage = key_memory_usage s, disk_usage = key_disk_usage s,
                 network_sent = key_bytes_sent s, network_recv = key_bytes_recv s,
                 execution_time = end_time rd - start_time rd, function_name = fname,
                 status = ''completed'', api_key = key\<rparr>\<rparr>] \<and>
     error_trace mon' = error_trace mon1 @
       (case r of Inl e \<Rightarrow> [(''ERROR'', upper (exc_name e), exc_str e)] | Inr v \<Rightarrow> []) @
       (if key_cpu_usage s > a
        then [(''WARNING'', ''HIGH_CPU_USAGE'', ''CPU usage: '' @ fmt (key_cpu_usage s) @ ''% exceeds threshold'')]
        else []) @
       (if end_time rd - start_time rd > b
        then [(''WARNING'', ''SLOW_RESPONSE'',
               ''Execution time: '' @ fmt (end_time rd - start_time rd) @ ''s exceeds threshold'')]
        else [])"
proof (cases r)
  case (Inr v)
  from finally_block_sampled[OF s a b, of fmt fname key]
  show ?thesis
    by (auto simp: monitor_function_def Let_def get_system_metrics_returns body Inr)
next
  case (Inl e)
  from except_block_step[of fname key "except_reads rd" e mon1]
  obtain mon2 where x: "except_block fname key (except_reads rd) e mon1 = (e, mon2)"
    and t2: "thresholds mon2 = thresholds mon1" and m2: "metrics (db mon2) = metrics (db mon1)"
    and q2: "metrics_seq (db mon2) = metrics_seq (db mon1)"
    and e2: "error_trace mon2 = error_trace mon1 @ [(''ERROR'', upper (exc_name e), exc_str e)]"
    by blast
  from a b t2 have a2: "thresholds mon2 ''cpu'' = Some a"
    and b2: "thresholds mon2 ''response_time'' = Some b" by simp_all
  from finally_block_sampled[OF s a2 b2, of fmt fname key]
  show ?thesis
    by (auto simp: monitor_function_def Let_def get_system_metrics_returns body Inl x m2 q2 e2)
qed

text \<open>The execution time is not negative when the clock did not go back.\<close>

lemma execution_time_nonneg:
  assumes "body mon = (r, mon1)" and "read_psutil (end_host rd) = Inr s"
    and "thresholds mon1 ''cpu'' = Some a" and "thresholds mon1 ''response_time'' = Some b"
    and "start_time rd \<le> end_time rd"
  shows "0 \<le> execution_time (cols (last (metrics (db (snd (monitor_function fmt fname key rd body mon))))))"
  using monitor_function_sampled[of body mon r mon1 rd s a b fmt fname key] assms by auto

text \<open>
  C1. The claim fails on the code at this input: the \<open>cpu\<close> threshold has been set to
  \<open>-1\<close>, the end sample fails and so is the empty dict. The condition of the first check
  reads \<^verbatim>\<open>end_metrics.get('cpu_usage', 0)\<close>, which is \<open>0 > -1\<close>; the message then
  reads \<^verbatim>\<open>end_metrics['cpu_usage']\<close>, which raises \<^verbatim>\<open>KeyError\<close> out of the
  \<^verbatim>\<open>finally\<close> block, before \<^verbatim>\<open>save_metric\<close>. The body returned, and no metric row
  is written.
\<close>

theorem monitor_function_writes_no_metric:
  "thresholds negative_cpu_threshold ''cpu'' = Some (- 1) \<and>
   get_system_metrics host_down = Inr None \<and>
   monitor_function no_format ''get_metrics'' None (example_reads host_down 1) body_returns
       negative_cpu_threshold
     = (Inl (KeyError ''cpu_usage''), negative_cpu_threshold) \<and>
   metrics (db negative_cpu_threshold) = []"
  by (simp add: negative_cpu_threshold_def set_thresholds_def PerformanceMonitor_init_def
      initialize_database_def body_returns_def example_reads_def host_down_def host_up_def
      monitor_function_def finally_block_def check_cpu_def index_threshold_def
      index_cpu_usage_def get_cpu_usage_def get_system_metrics_def read_psutil_def)

text \<open>
  C2. At the same state and end sample, with a body that raises \<^verbatim>\<open>ValueError\<close>: the
  ERROR row is written, but the \<^verbatim>\<open>KeyError\<close> of the \<^verbatim>\<open>finally\<close> block replaces the
  body's exception, so the caller does not get the failure that the body raised.
\<close>

theorem monitor_function_replaces_failure:
  "body_raises negative_cpu_threshold
     = (Inl (PyException ''ValueError'' ''invalid input''), negative_cpu_threshold) \<and>
   fst (monitor_function no_format ''get_metrics'' None (example_reads host_down 1) body_raises
       negative_cpu_threshold) = Inl (KeyError ''cpu_usage'') \<and>
   KeyError ''cpu_usage'' \<noteq> PyException ''ValueError'' ''invalid input'' \<and>
   error_trace (snd (monitor_function no_format ''get_metrics'' None (example_reads host_down 1)
       body_raises negative_cpu_threshold)) = [(''ERROR'', ''VALUEERROR'', ''invalid input'')]"
proof -
  have u: "upper ''ValueError'' = ''VALUEERROR''" by code_simp
  show ?thesis
    by (simp add: negative_cpu_threshold_def set_thresholds_def PerformanceMonitor_init_def
      initialize_database_def body_raises_def example_reads_def example_log_reads_def
      host_down_def host_up_def u error_trace_def KeyError_def
      monitor_function_def finally_block_def check_cpu_def index_threshold_def except_block_def
      log_error_def calculate_performance_impact_def save_error_def
      index_cpu_usage_def get_cpu_usage_def get_system_metrics_def read_psutil_def)
qed

text \<open>
  C4. At the same state and end sample, with a body that takes 6 seconds against a
  \<open>response_time\<close> threshold of 5: the CPU usage read from the end sample (0) exceeds the
  \<open>cpu\<close> threshold (\<open>-1\<close>) and the execution time exceeds its threshold, and neither
  warning is written.
\<close>

theorem monitor_function_writes_no_warning:
  "thresholds negative_cpu_threshold ''cpu'' = Some (- 1) \<and>
   thresholds negative_cpu_threshold ''response_time'' = Some 5 \<and>
   get_system_metrics (end_host (example_reads host_down 6)) = Inr None \<and>
   get_cpu_usage None > - 1 \<and>
   end_time (example_reads host_down 6) - start_time (example_reads host_down 6) > 5 \<and>
   error_trace (snd (monitor_function no_format ''simulate_load'' None (example_reads host_down 6)
       body_returns negative_cpu_threshold)) = []"
  by (simp add: negative_cpu_threshold_def set_thresholds_def PerformanceMonitor_init_def
      initialize_database_def body_returns_def example_reads_def host_down_def host_up_def
      error_trace_def
      monitor_function_def finally_block_def check_cpu_def index_threshold_def
      index_cpu_usage_def get_cpu_usage_def get_system_metrics_def read_psutil_def)

text \<open>
  C9. The claim fails on the code at the input of C1. The sampler itself raises nothing
  and returns the empty dict, from which \<^verbatim>\<open>.get('cpu_usage', 0)\<close> reads 0; but the
  \<^verbatim>\<open>finally\<close> block also reads \<^verbatim>\<open>end_metrics['cpu_usage']\<close>, which raises
  \<^verbatim>\<open>KeyError\<close> on the empty dict. With the \<open>cpu\<close> threshold at \<open>-1\<close> and the same
  body, the instrumented call returns when the end sample is taken (CPU usage 0) and
  raises \<^verbatim>\<open>KeyError\<close> when the end sample fails: the sampling failure aborts the
  monitored operation.
\<close>

theorem sampling_failure_aborts_operation:
  "get_system_metrics host_down = Inr None \<and>
   get_cpu_usage None = 0 \<and>
   index_cpu_usage None = Inl (KeyError ''cpu_usage'') \<and>
   fst (monitor_function fmt ''get_metrics'' None (example_reads (host_up 0) 1) body_returns
          negative_cpu_threshold) = Inr () \<and>
   fst (monitor_function fmt ''get_metrics'' None (example_reads host_down 1) body_returns
          negative_cpu_threshold) = Inl (KeyError ''cpu_usage'')"
proof -
  have t: "thresholds negative_cpu_threshold ''cpu'' = Some (- 1)"
      "thresholds negative_cpu_threshold ''response_time'' = Some 5"
    by (simp_all add: negative_cpu_threshold_def set_thresholds_def PerformanceMonitor_init_def)
  have up: "read_psutil (end_host (example_reads (host_up 0) 1))
      = Inr \<lparr>key_cpu_usage = 0, key_memory_usage = 40, key_disk_usage = 50,
             key_bytes_sent = 1000, key_bytes_recv = 2000\<rparr>"
    by (simp add: example_reads_def host_up_def read_psutil_def)
  have b: "body_returns negative_cpu_threshold = (Inr (), negative_cpu_threshold)"
    by (simp add: body_returns_def)
  from monitor_function_sampled[of body_returns negative_cpu_threshold "Inr ()"
      negative_cpu_threshold "example_reads (host_up 0) 1" _ "- 1" 5 fmt "''get_metrics''" None,
      OF b up t]
  have ok: "fst (monitor_function fmt ''get_metrics'' None (example_reads (host_up 0) 1) body_returns
          negative_cpu_threshold) = Inr ()"
    by auto
  have down: "fst (monitor_function fmt ''get_metrics'' None (example_reads host_down 1) body_returns
          negative_cpu_threshold) = Inl (KeyError ''cpu_usage'')"
    by (simp add: negative_cpu_threshold_def set_thresholds_def PerformanceMonitor_init_def
      initialize_database_def body_returns_def example_reads_def host_down_def host_up_def
      monitor_function_def finally_block_def check_cpu_def index_threshold_def
      index_cpu_usage_def get_cpu_usage_def get_system_metrics_def read_psutil_def)
  have "get_system_metrics host_down = Inr None"
    by (simp add: get_system_metrics_def read_psutil_def host_down_def)
  with ok down show ?thesis
    by (simp add: get_cpu_usage_def index_cpu_usage_def)
qed

end
